theory Spec2Isabelle
  imports Main "HOL-Library.Word"
begin

section \<open>Python values and the exceptions the scripts can meet\<close>

text \<open>
  The scripts handle the values that \<^verbatim>\<open>json.loads\<close> and a dataset row give: \<^verbatim>\<open>None\<close>,
  booleans, integers, floats, strings, lists and dicts. A float is kept as its IEEE-754
  binary64 bit pattern, which is all that truthiness needs. A string is a list of
  characters, each read as one code point below 256. A dict is an association list in
  insertion order; a Python dict has no repeated key, and on a list that repeats one the
  lookup takes the first entry.
\<close>

datatype json =
    JNull
  | JBool bool
  | JInt int
  | JFloat "64 word"
  | JStr string
  | JList "json list"
  | JDict "(string \<times> json) list"

text \<open>
  The argument of \<^verbatim>\<open>raise SystemExit(...)\<close> in \<^verbatim>\<open>scripts/responses.py\<close>: the three
  messages, with the values formatted into them.
\<close>

datatype exit_msg =
    JSONL_not_found string
  | Index_out_of_range int string
  | No_question

datatype error =
    AttributeError
  | TypeError
  | KeyError
  | IndexError
  | JSONDecodeError
  | RequestException
  | PrintError
  | HTTPError int
  | SystemExit_msg exit_msg
  | SystemExit_code nat

text \<open>Sequencing of fallible steps: the first exception ends the computation.\<close>

definition bindE :: "error + 'a \<Rightarrow> ('a \<Rightarrow> error + 'b) \<Rightarrow> error + 'b" where
  "bindE m f = (case m of Inl e \<Rightarrow> Inl e | Inr v \<Rightarrow> f v)"

text \<open>Truth value testing (\<^verbatim>\<open>if x\<close>, \<^verbatim>\<open>not x\<close>, \<^verbatim>\<open>x or y\<close>). Both float zeros are false.\<close>

fun truthy :: "json \<Rightarrow> bool" where
  "truthy JNull = False"
| "truthy (JBool b) = b"
| "truthy (JInt i) = (i \<noteq> 0)"
| "truthy (JFloat w) = (take_bit 63 w \<noteq> 0)"
| "truthy (JStr s) = (s \<noteq> [])"
| "truthy (JList xs) = (xs \<noteq> [])"
| "truthy (JDict kvs) = (kvs \<noteq> [])"

text \<open>\<^verbatim>\<open>x or y\<close> where evaluating \<^verbatim>\<open>y\<close> cannot raise.\<close>

definition py_or :: "json \<Rightarrow> json \<Rightarrow> json" where
  "py_or x y = (if truthy x then x else y)"

text \<open>\<^verbatim>\<open>d.get(k, default)\<close> on a dict.\<close>

definition dict_get :: "(string \<times> json) list \<Rightarrow> string \<Rightarrow> json \<Rightarrow> json" where
  "dict_get kvs k d = (case map_of kvs k of None \<Rightarrow> d | Some v \<Rightarrow> v)"

text \<open>
  \<^verbatim>\<open>x.get(k, default)\<close> on any value: only a dict has the method.
\<close>

fun py_get :: "json \<Rightarrow> string \<Rightarrow> json \<Rightarrow> error + json" where
  "py_get (JDict kvs) k d = Inr (dict_get kvs k d)"
| "py_get JNull k d = Inl AttributeError"
| "py_get (JBool b) k d = Inl AttributeError"
| "py_get (JInt i) k d = Inl AttributeError"
| "py_get (JFloat w) k d = Inl AttributeError"
| "py_get (JStr s) k d = Inl AttributeError"
| "py_get (JList xs) k d = Inl AttributeError"

text \<open>\<^verbatim>\<open>x[k]\<close> with a string key: a missing key raises, and so does a value that is no dict.\<close>

fun py_getitem :: "json \<Rightarrow> string \<Rightarrow> error + json" where
  "py_getitem (JDict kvs) k = (case map_of kvs k of None \<Rightarrow> Inl KeyError | Some v \<Rightarrow> Inr v)"
| "py_getitem JNull k = Inl TypeError"
| "py_getitem (JBool b) k = Inl TypeError"
| "py_getitem (JInt i) k = Inl TypeError"
| "py_getitem (JFloat w) k = Inl TypeError"
| "py_getitem (JStr s) k = Inl TypeError"
| "py_getitem (JList xs) k = Inl TypeError"

text \<open>
  \<^verbatim>\<open>x[0]\<close>: the first element of a list, the first character of a string (as a string);
  a dict from JSON has string keys only, so \<^verbatim>\<open>0\<close> is never one of them.
\<close>

fun py_item0 :: "json \<Rightarrow> error + json" where
  "py_item0 (JList xs) = (case xs of [] \<Rightarrow> Inl IndexError | x # _ \<Rightarrow> Inr x)"
| "py_item0 (JStr s) = (case s of [] \<Rightarrow> Inl IndexError | c # _ \<Rightarrow> Inr (JStr [c]))"
| "py_item0 (JDict kvs) = Inl KeyError"
| "py_item0 JNull = Inl TypeError"
| "py_item0 (JBool b) = Inl TypeError"
| "py_item0 (JInt i) = Inl TypeError"
| "py_item0 (JFloat w) = Inl TypeError"

text \<open>
  \<^verbatim>\<open>for d in x\<close>: the elements of a list, the characters of a string, the keys of a dict.
\<close>

fun py_iter :: "json \<Rightarrow> error + json list" where
  "py_iter (JList xs) = Inr xs"
| "py_iter (JStr s) = Inr (map (\<lambda>c. JStr [c]) s)"
| "py_iter (JDict kvs) = Inr (map (\<lambda>kv. JStr (fst kv)) kvs)"
| "py_iter JNull = Inl TypeError"
| "py_iter (JBool b) = Inl TypeError"
| "py_iter (JInt i) = Inl TypeError"
| "py_iter (JFloat w) = Inl TypeError"

text \<open>
  \<^verbatim>\<open>str.isspace\<close> on one character below 256: tab to carriage return, the four
  separators 28 to 31, space, NEL (133) and the no-break space (160).
\<close>

definition isspace :: "char \<Rightarrow> bool" where
  "isspace c =
     (let n = (of_char c :: nat)
      in (9 \<le> n \<and> n \<le> 13) \<or> (28 \<le> n \<and> n \<le> 32) \<or> n = 133 \<or> n = 160)"

text \<open>\<^verbatim>\<open>s.strip()\<close> on a string.\<close>

definition strip :: "string \<Rightarrow> string" where
  "strip s = rev (dropWhile isspace (rev (dropWhile isspace s)))"

text \<open>\<^verbatim>\<open>x.strip()\<close> on any value: of the JSON values only a string has the method.\<close>

fun py_strip :: "json \<Rightarrow> error + string" where
  "py_strip (JStr s) = Inr (strip s)"
| "py_strip JNull = Inl AttributeError"
| "py_strip (JBool b) = Inl AttributeError"
| "py_strip (JInt i) = Inl AttributeError"
| "py_strip (JFloat w) = Inl AttributeError"
| "py_strip (JList xs) = Inl AttributeError"
| "py_strip (JDict kvs) = Inl AttributeError"

text \<open>\<^verbatim>\<open>sep.join(xs)\<close> on a list of strings.\<close>

fun str_join :: "string \<Rightarrow> string list \<Rightarrow> string" where
  "str_join sep [] = []"
| "str_join sep [x] = x"
| "str_join sep (x # y # ys) = x @ sep @ str_join sep (y # ys)"

text \<open>
  \<^verbatim>\<open>str(x)\<close>: a string is returned as it is. The rendering of every other value (Python's
  \<^verbatim>\<open>repr\<close> of numbers, lists and dicts) is a parameter of the model.
\<close>

fun py_str :: "(json \<Rightarrow> string) \<Rightarrow> json \<Rightarrow> string" where
  "py_str render (JStr s) = s"
| "py_str render v = render v"

section \<open>\<^verbatim>\<open>scripts/responses.py\<close>: parsing the response\<close>

text \<open>
  The loop of \<^verbatim>\<open>_join_reasoning_details\<close> (lines 119 to 123), with the list
  \<^verbatim>\<open>out\<close> as an accumulator.
\<close>

fun join_loop :: "json list \<Rightarrow> string list \<Rightarrow> string list" where
  "join_loop [] out = out"
| "join_loop (d # ds) out =
     (let t = (case d of JDict kvs \<Rightarrow> dict_get kvs ''text'' JNull | _ \<Rightarrow> JNull)
      in case t of
           JStr s \<Rightarrow> if s \<noteq> [] then join_loop ds (out @ [s]) else join_loop ds out
         | _ \<Rightarrow> join_loop ds out)"

definition join_reasoning_details :: "json \<Rightarrow> error + string" where
  "join_reasoning_details details =
     (if \<not> truthy details then Inr []
      else bindE (py_iter details) (\<lambda>ds.
        Inr (strip (str_join [CHR 10] (join_loop ds [])))))"

text \<open>
  \<^verbatim>\<open>extract_reasoning_and_answer\<close> (lines 127 to 146). The chain of \<^verbatim>\<open>or\<close> at lines
  134 to 139 evaluates a later operand only when the earlier ones are false, so an
  exception of a later operand is raised only then.
\<close>

definition reasoning_chain :: "json \<Rightarrow> json \<Rightarrow> error + json" where
  "reasoning_chain resp_json msg =
     bindE (py_get msg ''reasoning'' JNull) (\<lambda>r.
       if truthy r then Inr r
       else
         bindE (py_get msg ''reasoning_details'' JNull) (\<lambda>d1.
         bindE (join_reasoning_details d1) (\<lambda>j1.
           if j1 \<noteq> [] then Inr (JStr j1)
           else
             bindE (py_get resp_json ''reasoning_details'' JNull) (\<lambda>d2.
             bindE (join_reasoning_details d2) (\<lambda>j2.
               Inr (py_or (JStr j2) (JStr [])))))))"

definition extract_reasoning_and_answer ::
    "(json \<Rightarrow> string) \<Rightarrow> json \<Rightarrow> error + (string \<times> string \<times> (string \<times> json) list)" where
  "extract_reasoning_and_answer render resp_json =
     bindE (py_get resp_json ''choices'' JNull) (\<lambda>c.
       let choices = py_or c (JList [])
       in if \<not> truthy choices then Inr ([], [], [])
          else
            bindE (py_item0 choices) (\<lambda>choice0.
            bindE (py_get choice0 ''message'' (JDict [])) (\<lambda>m.
              let msg = py_or m (JDict [])
              in bindE (reasoning_chain resp_json msg) (\<lambda>reasoning.
                 bindE (py_get msg ''content'' JNull) (\<lambda>c1.
                   let content = py_or c1 (JStr [])
                   in bindE (py_get choice0 ''finish_reason'' JNull) (\<lambda>fr.
                      bindE (py_get choice0 ''native_finish_reason'' JNull) (\<lambda>nfr.
                      bindE (py_get msg ''role'' JNull) (\<lambda>role.
                        let meta = [(''finish_reason'', fr),
                                    (''native_finish_reason'', nfr),
                                    (''role'', role)]
                        in Inr (py_str render (py_or reasoning (JStr [])),
                                py_str render (py_or content (JStr [])),
                                meta)))))))))"

section \<open>\<^verbatim>\<open>scripts/responses.py\<close>: loading the question\<close>

text \<open>
  The file system as \<^verbatim>\<open>load_question\<close> sees it: a path names no file, or a text file given
  as its lines. What the function touches is recorded as a list of events.
\<close>

type_synonym fs = "string \<Rightarrow> string list option"

datatype io_event = Path_exists string | Open_file string

text \<open>\<^verbatim>\<open>if s\<close> on an \<^verbatim>\<open>Optional[str]\<close>: \<^verbatim>\<open>None\<close> and the empty string are false.\<close>

fun truthy_opt :: "string option \<Rightarrow> bool" where
  "truthy_opt None = False"
| "truthy_opt (Some s) = (s \<noteq> [])"

text \<open>An \<^verbatim>\<open>Optional[str]\<close> as a value.\<close>

fun opt_json :: "string option \<Rightarrow> json" where
  "opt_json None = JNull"
| "opt_json (Some s) = JStr s"

definition default_question :: string where
  "default_question = ''What is the sum of the first 10 positive integers?''"

text \<open>
  The loop of lines 50 to 53: \<^verbatim>\<open>enumerate\<close> counts the lines from 0, and the first line
  whose number equals \<^verbatim>\<open>index\<close> is taken.
\<close>

fun scan_lines :: "int \<Rightarrow> int \<Rightarrow> string list \<Rightarrow> string option" where
  "scan_lines i index [] = None"
| "scan_lines i index (line # rest) =
     (if i = index then Some line else scan_lines (i + 1) index rest)"

text \<open>
  \<^verbatim>\<open>load_question\<close> (lines 38 to 54). \<^verbatim>\<open>json.loads\<close> is the parameter \<open>loads\<close>, which
  gives \<^verbatim>\<open>None\<close> on a text that is no JSON. The messages carry the path as it was given.
\<close>

definition load_question ::
    "fs \<Rightarrow> (string \<Rightarrow> json option) \<Rightarrow> string option \<Rightarrow> int \<Rightarrow> string option
     \<Rightarrow> io_event list \<times> (error + json)" where
  "load_question files loads from_jsonl index fallback_question =
     (if truthy_opt fallback_question
      then ([], Inr (JDict [(''question'', opt_json fallback_question)]))
      else if \<not> truthy_opt from_jsonl
      then ([], Inr (JDict [(''question'', JStr default_question)]))
      else
        (let path = (case from_jsonl of Some p \<Rightarrow> p | None \<Rightarrow> [])
         in case files path of
              None \<Rightarrow> ([Path_exists path], Inl (SystemExit_msg (JSONL_not_found path)))
            | Some lines \<Rightarrow>
                ([Path_exists path, Open_file path],
                 case scan_lines 0 index lines of
                   None \<Rightarrow> Inl (SystemExit_msg (Index_out_of_range index path))
                 | Some line \<Rightarrow>
                     (case loads line of
                        None \<Rightarrow> Inl JSONDecodeError
                      | Some ex \<Rightarrow> Inr ex))))"

section \<open>\<^verbatim>\<open>scripts/responses.py\<close>: the request\<close>

definition build_messages :: "string \<Rightarrow> json list" where
  "build_messages question =
     [JDict [(''role'', JStr ''system''),
             (''content'', JStr
                ''You are a helpful assistant. You are given a question and you need to answer it.'')],
      JDict [(''role'', JStr ''user''),
             (''content'', JStr (''Question:'' @ [CHR 10] @ question))]]"

text \<open>
  What \<^verbatim>\<open>requests.post\<close> gives back, as far as the script reads it: the status code and
  the body.
\<close>

record http_response =
  status_code :: int
  body :: string

text \<open>
  \<^verbatim>\<open>requests.post(url, headers, json, timeout)\<close> is a parameter: it gives a response, or
  \<^verbatim>\<open>None\<close> when it raises instead of returning one (no connection, a timeout, a payload it
  cannot serialise, such as one with a float that is not finite). Each of these exceptions
  is a \<^verbatim>\<open>RequestException\<close> that is no \<^verbatim>\<open>HTTPError\<close>.
\<close>

type_synonym post_fn =
  "string \<Rightarrow> (string \<times> string) list \<Rightarrow> json \<Rightarrow> int \<Rightarrow> http_response option"

definition requests_post ::
    "post_fn \<Rightarrow> string \<Rightarrow> (string \<times> string) list \<Rightarrow> json \<Rightarrow> int
     \<Rightarrow> error + http_response" where
  "requests_post post url headers payload timeout =
     (case post url headers payload timeout of
        None \<Rightarrow> Inl RequestException
      | Some r \<Rightarrow> Inr r)"

definition OPENROUTER_URL :: string where
  "OPENROUTER_URL = ''https://openrouter.ai/api/v1/chat/completions''"

text \<open>
  \<^verbatim>\<open>Response.raise_for_status()\<close> of the \<^verbatim>\<open>requests\<close> library raises \<^verbatim>\<open>HTTPError\<close> for a
  client error (400 to 499) and for a server error (500 to 599), and returns for every
  other status code.
\<close>

definition raise_for_status :: "http_response \<Rightarrow> error + unit" where
  "raise_for_status resp =
     (if 400 \<le> status_code resp \<and> status_code resp < 600
      then Inl (HTTPError (status_code resp))
      else Inr ())"

text \<open>\<^verbatim>\<open>Response.json()\<close>: the parsed body, or a decoding error.\<close>

definition response_json :: "(string \<Rightarrow> json option) \<Rightarrow> http_response \<Rightarrow> error + json" where
  "response_json loads resp =
     (case loads (body resp) of None \<Rightarrow> Inl JSONDecodeError | Some v \<Rightarrow> Inr v)"

text \<open>\<^verbatim>\<open>call_openrouter\<close> (lines 70 to 113), its arguments in the order of the source.\<close>

definition call_openrouter ::
    "post_fn \<Rightarrow> (string \<Rightarrow> json option) \<Rightarrow> string \<Rightarrow> string \<Rightarrow> json list \<Rightarrow> int \<Rightarrow> 64 word
     \<Rightarrow> bool \<Rightarrow> int \<Rightarrow> string option \<Rightarrow> string option \<Rightarrow> string option \<Rightarrow> bool
     \<Rightarrow> error + json" where
  "call_openrouter post loads api_key model messages max_tokens temperature json_mode
       request_timeout referer title reasoning_effort include_usage_details =
     (let headers =
            [(''Authorization'', ''Bearer '' @ api_key),
             (''Content-Type'', ''application/json'')]
            @ (case referer of Some r \<Rightarrow> if r \<noteq> [] then [(''HTTP-Referer'', r)] else []
               | None \<Rightarrow> [])
            @ (case title of Some t \<Rightarrow> if t \<noteq> [] then [(''X-Title'', t)] else []
               | None \<Rightarrow> []);
          payload =
            [(''model'', JStr model),
             (''messages'', JList messages),
             (''temperature'', JFloat temperature),
             (''max_tokens'', JInt max_tokens)]
            @ (if json_mode
               then [(''response_format'', JDict [(''type'', JStr ''json_object'')])]
               else [])
            @ (case reasoning_effort of
                 Some e \<Rightarrow> if e \<noteq> [] then [(''reasoning'', JDict [(''effort'', JStr e)])] else []
               | None \<Rightarrow> [])
            @ (if include_usage_details
               then [(''usage'', JDict [(''include'', JBool True)])]
               else [])
      in bindE (requests_post post OPENROUTER_URL headers (JDict payload) request_timeout)
           (\<lambda>resp.
         bindE (raise_for_status resp) (\<lambda>u.
           response_json loads resp)))"

section \<open>\<^verbatim>\<open>scripts/responses.py\<close>: the main program\<close>

text \<open>The namespace that \<^verbatim>\<open>ap.parse_args()\<close> returns: the fields that \<^verbatim>\<open>main\<close> reads.\<close>

record args =
  model :: string
  question :: "string option"
  from_jsonl :: "string option"
  index :: int
  max_tokens :: int
  temperature :: "64 word"
  json_mode :: bool
  reasoning_effort :: string
  no_usage_details :: bool
  show_payload :: bool

text \<open>
  \<^verbatim>\<open>ap.parse_args()\<close> (line 171) is library code and a parameter of the model. On the
  command line it returns the namespace; on a command line that it rejects it writes the
  usage to the error stream and calls \<^verbatim>\<open>sys.exit(2)\<close>; on \<^verbatim>\<open>-h\<close> or \<^verbatim>\<open>--help\<close> it writes the
  help and calls \<^verbatim>\<open>sys.exit(0)\<close>.
\<close>

datatype parsed = Namespace args | Usage_error | Help_printed

text \<open>
  What \<^verbatim>\<open>print\<close> is given: a text, the \<^verbatim>\<open>json.dumps\<close> of a value, or a text followed by an
  exception. The console is a parameter that says whether a write to a stream succeeds; a
  \<^verbatim>\<open>print\<close> whose write fails raises (\<^verbatim>\<open>UnicodeEncodeError\<close> on a stream that cannot encode
  the text, \<^verbatim>\<open>OSError\<close> on one that cannot be written).
\<close>

datatype stream = Stdout | Stderr

datatype printed = Text string | Json json | Failure string error

type_synonym console = "stream \<Rightarrow> printed \<Rightarrow> bool"

definition py_print :: "console \<Rightarrow> stream \<Rightarrow> printed \<Rightarrow> error + unit" where
  "py_print console s out = (if console s out then Inr () else Inl PrintError)"

text \<open>
  Lines 252 to 256: the dict \<^verbatim>\<open>echoed_reasoning\<close>. Its second entry reads the first
  choice's message again, here without the \<^verbatim>\<open>or {}\<close> of line 132.
\<close>

definition echoed_reasoning :: "json \<Rightarrow> error + (string \<times> json) list" where
  "echoed_reasoning resp_json =
     bindE (py_get resp_json ''reasoning'' JNull) (\<lambda>top.
     bindE (py_get resp_json ''choices'' JNull) (\<lambda>c.
     bindE (if truthy c
            then bindE (py_get resp_json ''choices'' (JList [JDict []])) (\<lambda>choices.
                 bindE (py_item0 choices) (\<lambda>choice0.
                 bindE (py_get choice0 ''message'' (JDict [])) (\<lambda>m.
                   py_get m ''metadata'' JNull)))
            else Inr JNull) (\<lambda>meta.
       Inr [(''top_level_reasoning'', top), (''choice_reasoning_meta'', meta)])))"

text \<open>
  Line 179: \<^verbatim>\<open>ex.get("question") or ex.get("prompt") or args.question\<close>, where
  \<^verbatim>\<open>ex\<close> is whatever \<^verbatim>\<open>load_question\<close> returned.
\<close>

definition pick_question :: "json \<Rightarrow> string option \<Rightarrow> error + json" where
  "pick_question ex arg_question =
     bindE (py_get ex ''question'' JNull) (\<lambda>q1.
       if truthy q1 then Inr q1
       else bindE (py_get ex ''prompt'' JNull) (\<lambda>q2.
              Inr (py_or q2 (opt_json arg_question))))"

text \<open>
  Lines 224 to 259: what \<^verbatim>\<open>main\<close> prints of the response body, every \<^verbatim>\<open>print\<close> and every
  read that can raise in the order of the source.
\<close>

definition report_response :: "console \<Rightarrow> (json \<Rightarrow> string) \<Rightarrow> json \<Rightarrow> error + unit" where
  "report_response console render resp_json =
     bindE (py_print console Stdout (Text (CHR 10 # ''=== Raw API Response ===''))) (\<lambda>u1.
     bindE (py_print console Stdout (Json resp_json)) (\<lambda>u2.
     bindE (extract_reasoning_and_answer render resp_json) (\<lambda>parsed.
     bindE (py_print console Stdout (Text (CHR 10 # ''=== Parsed Fields ===''))) (\<lambda>u3.
     bindE (py_print console Stdout (Json (JDict
              [(''thinking_trajectory'', JStr (fst parsed)),
               (''attempt'', JStr (fst (snd parsed))),
               (''meta'', JDict (snd (snd parsed)))]))) (\<lambda>u4.
     bindE (py_get resp_json ''usage'' (JDict [])) (\<lambda>usage.
     bindE (py_get resp_json ''id'' JNull) (\<lambda>rid.
     bindE (py_get resp_json ''model'' JNull) (\<lambda>model_name.
     bindE (py_print console Stdout (Text (CHR 10 # ''=== Usage / IDs ===''))) (\<lambda>u5.
     bindE (py_get resp_json ''provider'' JNull) (\<lambda>provider.
     bindE (py_get usage ''prompt_tokens_details'' JNull) (\<lambda>ptd.
     bindE (py_get usage ''completion_tokens_details'' JNull) (\<lambda>ctd.
     bindE (py_print console Stdout (Json (JDict
              [(''id'', rid),
               (''model'', model_name),
               (''provider'', provider),
               (''usage'', usage),
               (''usage_details'', JDict
                  [(''prompt_tokens_details'', ptd),
                   (''completion_tokens_details'', ctd)])]))) (\<lambda>u6.
     bindE (echoed_reasoning resp_json) (\<lambda>echoed.
       if list_ex (\<lambda>kv. truthy (snd kv)) echoed
       then bindE (py_print console Stdout
                     (Text (CHR 10 # ''=== Provider-Reported Reasoning Meta (if any) ===''))) (\<lambda>u7.
              py_print console Stdout (Json (JDict echoed)))
       else Inr ()))))))))))))))"

text \<open>
  Lines 188 to 199: the request is printed when \<^verbatim>\<open>--show-payload\<close> is given.
\<close>

definition print_payload :: "console \<Rightarrow> args \<Rightarrow> json list \<Rightarrow> error + unit" where
  "print_payload console a messages =
     (if show_payload a
      then bindE (py_print console Stdout (Text ''=== Request Payload ==='')) (\<lambda>u.
             py_print console Stdout (Json (JDict
               [(''url'', JStr OPENROUTER_URL),
                (''model'', JStr (model a)),
                (''messages'', JList messages),
                (''temperature'', JFloat (temperature a)),
                (''max_tokens'', JInt (max_tokens a)),
                (''json_mode'', JBool (json_mode a)),
                (''reasoning_effort'', JStr (reasoning_effort a)),
                (''usage_include'', JBool (\<not> no_usage_details a))])))
      else Inr ())"

text \<open>Lines 261 to 268: the requested settings are printed last.\<close>

definition print_settings :: "console \<Rightarrow> args \<Rightarrow> error + unit" where
  "print_settings console a =
     bindE (py_print console Stdout (Text (CHR 10 # ''=== Requested Settings (echo) ===''))) (\<lambda>u.
       py_print console Stdout (Json (JDict
         [(''requested_reasoning_effort'', JStr (reasoning_effort a)),
          (''requested_json_mode'', JBool (json_mode a)),
          (''requested_temperature'', JFloat (temperature a)),
          (''requested_max_tokens'', JInt (max_tokens a))])))"

text \<open>
  \<^verbatim>\<open>main\<close> (lines 149 to 268) on the command line \<open>argv\<close>. The result is how the call
  ends: it returns, or an exception leaves it; \<^verbatim>\<open>sys.exit(n)\<close> is the exception
  \<^verbatim>\<open>SystemExit\<close> with the code \<^verbatim>\<open>n\<close>. The handler of \<^verbatim>\<open>requests.HTTPError\<close> prints the error and
  calls \<^verbatim>\<open>sys.exit(1)\<close>; its second \<^verbatim>\<open>print\<close> (line 219) stands inside
  \<^verbatim>\<open>try: ... except Exception: pass\<close>, cannot end the run, and is left out.
\<close>

definition main ::
    "(string list \<Rightarrow> parsed) \<Rightarrow> string list \<Rightarrow> (string \<Rightarrow> string option) \<Rightarrow> fs
     \<Rightarrow> (string \<Rightarrow> json option) \<Rightarrow> post_fn \<Rightarrow> console \<Rightarrow> (json \<Rightarrow> string)
     \<Rightarrow> error + unit" where
  "main parse_args argv environ files loads post console render =
     (case parse_args argv of
        Usage_error \<Rightarrow> Inl (SystemExit_code 2)
      | Help_printed \<Rightarrow> Inl (SystemExit_code 0)
      | Namespace a \<Rightarrow>
     (let api_key = environ ''OPENROUTER_API_KEY''
      in if \<not> truthy_opt api_key
         then bindE (py_print console Stderr
                       (Text ''Missing OPENROUTER_API_KEY in environment.'')) (\<lambda>u.
                Inl (SystemExit_code 2))
         else
           bindE (snd (load_question files loads (from_jsonl a) (index a) (question a))) (\<lambda>ex.
           bindE (pick_question ex (question a)) (\<lambda>q.
             if \<not> truthy q then Inl (SystemExit_msg No_question)
             else
               (let messages = build_messages (py_str render q);
                    referer = (if truthy_opt (environ ''OPENROUTER_SITE_URL'')
                               then environ ''OPENROUTER_SITE_URL''
                               else Some ''http://localhost'');
                    title = (if truthy_opt (environ ''OPENROUTER_TITLE'')
                             then environ ''OPENROUTER_TITLE''
                             else Some ''s1k-generation-test'')
                in bindE (print_payload console a messages) (\<lambda>u1.
                   bindE (py_print console Stdout (Text ''Sending request to OpenRouter ...''))
                     (\<lambda>u2.
                     case call_openrouter post loads
                            (case api_key of Some k \<Rightarrow> k | None \<Rightarrow> [])
                            (model a) messages (max_tokens a) (temperature a) (json_mode a) 120
                            referer title (Some (reasoning_effort a)) (\<not> no_usage_details a) of
                       Inl (HTTPError code) \<Rightarrow>
                         bindE (py_print console Stderr
                                  (Failure ''Request failed with HTTP error:'' (HTTPError code)))
                           (\<lambda>u3. Inl (SystemExit_code 1))
                     | Inl e \<Rightarrow> Inl e
                     | Inr resp_json \<Rightarrow>
                         bindE (report_response console render resp_json) (\<lambda>u3.
                           print_settings console a))))))))"


section \<open>\<^verbatim>\<open>data/prep_s1k_chatml.py\<close>: the converter\<close>

text \<open>
  The body of the loop (lines 11 to 25) on one row: the record that line 26 writes, or
  the exception that ends the script.
\<close>

definition convert_row :: "(json \<Rightarrow> string) \<Rightarrow> json \<Rightarrow> error + json" where
  "convert_row render ex =
     bindE (py_getitem ex ''question'') (\<lambda>qv.
     bindE (py_strip qv) (\<lambda>q.
     bindE (py_getitem ex ''attempt'') (\<lambda>av.
       let ans = strip (py_str render av)
       in bindE (py_get ex ''thinking_trajectories'' JNull) (\<lambda>tl.
            let trace_list = py_or tl (JList [])
            in bindE (if truthy trace_list then py_item0 trace_list else Inr (JStr [])) (\<lambda>t0.
               bindE (py_strip t0) (\<lambda>trace.
                 Inr (JDict [(''messages'', JList
                   [JDict [(''role'', JStr ''user''), (''content'', JStr q)],
                    JDict [(''role'', JStr ''think''), (''content'', JStr trace)],
                    JDict [(''role'', JStr ''answer''), (''content'', JStr ans)]])])))))))"

text \<open>
  The loop over the dataset (lines 10 to 26). The output file is the list of the records
  written so far, one per line; a row that raises ends the script with the file as it is.
\<close>

fun write_rows :: "(json \<Rightarrow> string) \<Rightarrow> json list \<Rightarrow> json list \<Rightarrow> json list \<times> error option" where
  "write_rows render [] out = (out, None)"
| "write_rows render (ex # ds) out =
     (case convert_row render ex of
        Inl e \<Rightarrow> (out, Some e)
      | Inr obj \<Rightarrow> write_rows render ds (out @ [obj]))"

definition prep_s1k_chatml :: "(json \<Rightarrow> string) \<Rightarrow> json list \<Rightarrow> json list \<times> error option" where
  "prep_s1k_chatml render ds = write_rows render ds []"

section \<open>Reading a response: the vocabulary of the properties\<close>

text \<open>
  The properties speak of fields of the response: the first choice, its message, a
  field of a dict. These accessors give \<^verbatim>\<open>None\<close> where the field, or the dict itself, is
  missing; they are used in the statements only.
\<close>

fun fieldv :: "json \<Rightarrow> string \<Rightarrow> json" where
  "fieldv (JDict kvs) k = dict_get kvs k JNull"
| "fieldv v k = JNull"

fun has_key :: "json \<Rightarrow> string \<Rightarrow> bool" where
  "has_key (JDict kvs) k = (map_of kvs k \<noteq> None)"
| "has_key v k = False"

definition first_choice :: "json \<Rightarrow> json" where
  "first_choice resp = (case fieldv resp ''choices'' of JList (c # cs) \<Rightarrow> c | _ \<Rightarrow> JNull)"

definition message_of :: "json \<Rightarrow> json" where
  "message_of resp = fieldv (first_choice resp) ''message''"

fun is_dict :: "json \<Rightarrow> bool" where
  "is_dict (JDict kvs) = True"
| "is_dict v = False"

fun null_or_dict :: "json \<Rightarrow> bool" where
  "null_or_dict JNull = True"
| "null_or_dict (JDict kvs) = True"
| "null_or_dict v = False"

fun null_or_str :: "json \<Rightarrow> bool" where
  "null_or_str JNull = True"
| "null_or_str (JStr s) = True"
| "null_or_str v = False"

fun null_or_list :: "json \<Rightarrow> bool" where
  "null_or_list JNull = True"
| "null_or_list (JList xs) = True"
| "null_or_list v = False"

fun as_text :: "json \<Rightarrow> string" where
  "as_text (JStr s) = s"
| "as_text v = []"

fun as_list :: "json \<Rightarrow> json list" where
  "as_list (JList xs) = xs"
| "as_list v = []"

text \<open>
  The text fragment of one entry of a \<^verbatim>\<open>reasoning_details\<close> list: the \<^verbatim>\<open>text\<close> field of a
  dict entry when it is a non-empty string, and nothing for every other entry.
\<close>

fun fragment :: "json \<Rightarrow> string list" where
  "fragment (JDict kvs) =
     (case dict_get kvs ''text'' JNull of
        JStr s \<Rightarrow> if s \<noteq> [] then [s] else []
      | _ \<Rightarrow> [])"
| "fragment v = []"

definition text_fragments :: "json list \<Rightarrow> string list" where
  "text_fragments ds = concat (map fragment ds)"

definition joined_fragments :: "json \<Rightarrow> string" where
  "joined_fragments d = str_join [CHR 10] (text_fragments (as_list d))"

fun first_nonempty :: "string list \<Rightarrow> string" where
  "first_nonempty [] = []"
| "first_nonempty (s # ss) = (if s \<noteq> [] then s else first_nonempty ss)"

text \<open>
  The trace as the specification words it: the first non-empty of \<^verbatim>\<open>message.reasoning\<close>,
  the newline-joined fragments of \<^verbatim>\<open>message.reasoning_details\<close> and the newline-joined
  fragments of the top-level \<^verbatim>\<open>reasoning_details\<close>.
\<close>

definition claimed_trace :: "json \<Rightarrow> string" where
  "claimed_trace resp =
     first_nonempty
       [as_text (fieldv (message_of resp) ''reasoning''),
        joined_fragments (fieldv (message_of resp) ''reasoning_details''),
        joined_fragments (fieldv resp ''reasoning_details'')]"

text \<open>The same with each joined text stripped of surrounding whitespace.\<close>

definition stripped_trace :: "json \<Rightarrow> string" where
  "stripped_trace resp =
     first_nonempty
       [as_text (fieldv (message_of resp) ''reasoning''),
        strip (joined_fragments (fieldv (message_of resp) ''reasoning_details'')),
        strip (joined_fragments (fieldv resp ''reasoning_details''))]"

text \<open>
  A response with a first choice: a dict whose \<^verbatim>\<open>choices\<close> is a list that starts with a
  dict, whose \<^verbatim>\<open>message\<close> is missing, \<^verbatim>\<open>None\<close> or a dict.
\<close>

definition has_first_choice :: "json \<Rightarrow> bool" where
  "has_first_choice resp =
     (is_dict resp \<and> is_dict (first_choice resp) \<and> null_or_dict (message_of resp))"

text \<open>
  A chat-completions response: it has a first choice, \<^verbatim>\<open>message.reasoning\<close> is missing,
  \<^verbatim>\<open>None\<close> or a string, and both \<^verbatim>\<open>reasoning_details\<close> are missing, \<^verbatim>\<open>None\<close> or lists.
\<close>

definition chat_response :: "json \<Rightarrow> bool" where
  "chat_response resp =
     (has_first_choice resp \<and>
      null_or_str (fieldv (message_of resp) ''reasoning'') \<and>
      null_or_list (fieldv (message_of resp) ''reasoning_details'') \<and>
      null_or_list (fieldv resp ''reasoning_details''))"

text \<open>No reasoning source is present: none of the three keys exists.\<close>

definition no_reasoning_source :: "json \<Rightarrow> bool" where
  "no_reasoning_source resp =
     (\<not> has_key (message_of resp) ''reasoning'' \<and>
      \<not> has_key (message_of resp) ''reasoning_details'' \<and>
      \<not> has_key resp ''reasoning_details'')"

text \<open>
  A value that \<^verbatim>\<open>_join_reasoning_details\<close> can take: false, or one that a \<^verbatim>\<open>for\<close> loop
  can run over.
\<close>

fun iterable_or_false :: "json \<Rightarrow> bool" where
  "iterable_or_false (JList xs) = True"
| "iterable_or_false (JStr s) = True"
| "iterable_or_false (JDict kvs) = True"
| "iterable_or_false v = (\<not> truthy v)"

text \<open>An entry that contributes a fragment: a dict whose \<^verbatim>\<open>text\<close> is a non-empty string.\<close>

fun has_text :: "json \<Rightarrow> bool" where
  "has_text (JDict kvs) = (case dict_get kvs ''text'' JNull of JStr s \<Rightarrow> s \<noteq> [] | _ \<Rightarrow> False)"
| "has_text v = False"

section \<open>Reading a dataset row and a record: the vocabulary of the properties\<close>

text \<open>
  The messages of an output record, their roles in order, and the contents of the
  messages with a given role.
\<close>

definition messages_of :: "json \<Rightarrow> json list" where
  "messages_of rec = as_list (fieldv rec ''messages'')"

definition roles_of :: "json \<Rightarrow> json list" where
  "roles_of rec = map (\<lambda>m. fieldv m ''role'') (messages_of rec)"

definition content_of :: "json \<Rightarrow> string \<Rightarrow> json list" where
  "content_of rec role =
     map (\<lambda>m. fieldv m ''content'') (filter (\<lambda>m. fieldv m ''role'' = JStr role) (messages_of rec))"

fun is_str :: "json \<Rightarrow> bool" where
  "is_str (JStr s) = True"
| "is_str v = False"

text \<open>
  A row of the dataset as the converter expects it: \<^verbatim>\<open>question\<close> is a string, \<^verbatim>\<open>attempt\<close> is
  present, and \<^verbatim>\<open>thinking_trajectories\<close> is missing, \<^verbatim>\<open>None\<close>, empty, or a list that starts
  with a string.
\<close>

fun trajectories_ok :: "json \<Rightarrow> bool" where
  "trajectories_ok JNull = True"
| "trajectories_ok (JList []) = True"
| "trajectories_ok (JList (JStr s # rest)) = True"
| "trajectories_ok v = False"

definition dataset_row :: "json \<Rightarrow> bool" where
  "dataset_row ex =
     (is_str (fieldv ex ''question'') \<and> has_key ex ''attempt'' \<and>
      trajectories_ok (fieldv ex ''thinking_trajectories''))"

text \<open>The first trajectory of a row, and the empty string where there is none.\<close>

definition first_trajectory :: "json \<Rightarrow> string" where
  "first_trajectory ex =
     (case fieldv ex ''thinking_trajectories'' of JList (JStr s # rest) \<Rightarrow> s | _ \<Rightarrow> [])"

text \<open>The record of a question, a trace and an answer.\<close>

definition chat_record :: "string \<Rightarrow> string \<Rightarrow> string \<Rightarrow> json" where
  "chat_record q trace ans =
     JDict [(''messages'', JList
       [JDict [(''role'', JStr ''user''), (''content'', JStr q)],
        JDict [(''role'', JStr ''think''), (''content'', JStr trace)],
        JDict [(''role'', JStr ''answer''), (''content'', JStr ans)]])]"


section \<open>Lemmas on the primitives\<close>

lemma bindE_Inr: "bindE (Inr v) f = f v"
  by (simp add: bindE_def)

lemma bindE_Inl: "bindE (Inl e) f = Inl e"
  by (simp add: bindE_def)

lemma strip_Nil: "strip [] = []"
  by (simp add: strip_def)

section \<open>Lemmas on the response parser\<close>

lemma join_loop_fragments: "join_loop ds out = out @ text_fragments ds"
  by (induction ds arbitrary: out)
     (auto simp: text_fragments_def split: json.splits)

lemma join_falsy: "\<not> truthy d \<Longrightarrow> join_reasoning_details d = Inr []"
  by (simp add: join_reasoning_details_def)

lemma join_list:
  "join_reasoning_details (JList ds) = Inr (strip (str_join [CHR 10] (text_fragments ds)))"
  by (cases ds) (simp_all add: join_reasoning_details_def bindE_def join_loop_fragments
      text_fragments_def strip_Nil)

lemma join_null_or_list:
  "null_or_list d \<Longrightarrow> join_reasoning_details d = Inr (strip (joined_fragments d))"
  by (cases d)
     (simp_all add: join_list joined_fragments_def join_falsy text_fragments_def strip_Nil)

lemma extract_no_choices:
  "\<not> truthy (dict_get kvs ''choices'' JNull) \<Longrightarrow>
   extract_reasoning_and_answer render (JDict kvs) = Inr ([], [], [])"
  by (simp add: extract_reasoning_and_answer_def bindE_Inr py_or_def)

lemma extract_first_choice:
  assumes "dict_get kvs ''choices'' JNull = JList (JDict ckvs # rest)"
    and "py_or (dict_get ckvs ''message'' (JDict [])) (JDict []) = JDict mkvs"
  shows "extract_reasoning_and_answer render (JDict kvs) =
     bindE (reasoning_chain (JDict kvs) (JDict mkvs)) (\<lambda>reasoning.
       Inr (py_str render (py_or reasoning (JStr [])),
            py_str render (py_or (dict_get mkvs ''content'' JNull) (JStr [])),
            [(''finish_reason'', dict_get ckvs ''finish_reason'' JNull),
             (''native_finish_reason'', dict_get ckvs ''native_finish_reason'' JNull),
             (''role'', dict_get mkvs ''role'' JNull)]))"
  using assms
  by (simp add: extract_reasoning_and_answer_def bindE_Inr py_or_def Let_def)

lemma first_choice_dict:
  assumes "is_dict (first_choice (JDict kvs))"
  shows "\<exists>ckvs rest. dict_get kvs ''choices'' JNull = JList (JDict ckvs # rest) \<and>
     first_choice (JDict kvs) = JDict ckvs"
  using assms
  by (auto simp: first_choice_def split: json.splits list.splits elim: is_dict.elims)

lemma msg_null_or_dict:
  assumes "null_or_dict (dict_get ckvs ''message'' JNull)"
  shows "\<exists>mkvs. py_or (dict_get ckvs ''message'' (JDict [])) (JDict []) = JDict mkvs \<and>
     (\<forall>k. dict_get mkvs k JNull = fieldv (dict_get ckvs ''message'' JNull) k)"
proof (cases "map_of ckvs ''message''")
  case None
  then show ?thesis by (simp add: dict_get_def py_or_def)
next
  case (Some v)
  with assms show ?thesis
    by (cases v) (simp_all add: dict_get_def py_or_def)
qed

text \<open>
  On a response with a first choice the parser reaches line 134 with \<^verbatim>\<open>msg\<close> a dict whose
  fields are those of the first choice's message.
\<close>

lemma extract_with_first_choice:
  assumes "has_first_choice resp"
  shows "\<exists>kvs ckvs mkvs.
     resp = JDict kvs \<and> first_choice resp = JDict ckvs \<and>
     (\<forall>k. dict_get mkvs k JNull = fieldv (message_of resp) k) \<and>
     (\<forall>render. extract_reasoning_and_answer render resp =
        bindE (reasoning_chain resp (JDict mkvs)) (\<lambda>reasoning.
          Inr (py_str render (py_or reasoning (JStr [])),
               py_str render (py_or (dict_get mkvs ''content'' JNull) (JStr [])),
               [(''finish_reason'', dict_get ckvs ''finish_reason'' JNull),
                (''native_finish_reason'', dict_get ckvs ''native_finish_reason'' JNull),
                (''role'', dict_get mkvs ''role'' JNull)])))"
proof -
  from assms obtain kvs where resp: "resp = JDict kvs"
    by (cases resp) (simp_all add: has_first_choice_def)
  from assms resp obtain ckvs rest
    where ch: "dict_get kvs ''choices'' JNull = JList (JDict ckvs # rest)"
      and fc: "first_choice (JDict kvs) = JDict ckvs"
    using first_choice_dict [of kvs] by (auto simp: has_first_choice_def)
  have mo: "message_of resp = dict_get ckvs ''message'' JNull"
    by (simp add: message_of_def resp fc)
  with assms have "null_or_dict (dict_get ckvs ''message'' JNull)"
    by (simp add: has_first_choice_def)
  then obtain mkvs
    where msg: "py_or (dict_get ckvs ''message'' (JDict [])) (JDict []) = JDict mkvs"
      and fld: "\<And>k. dict_get mkvs k JNull = fieldv (message_of resp) k"
    using msg_null_or_dict [of ckvs] unfolding mo by blast
  have "resp = JDict kvs \<and> first_choice resp = JDict ckvs \<and>
     (\<forall>k. dict_get mkvs k JNull = fieldv (message_of resp) k) \<and>
     (\<forall>render. extract_reasoning_and_answer render resp =
        bindE (reasoning_chain resp (JDict mkvs)) (\<lambda>reasoning.
          Inr (py_str render (py_or reasoning (JStr [])),
               py_str render (py_or (dict_get mkvs ''content'' JNull) (JStr [])),
               [(''finish_reason'', dict_get ckvs ''finish_reason'' JNull),
                (''native_finish_reason'', dict_get ckvs ''native_finish_reason'' JNull),
                (''role'', dict_get mkvs ''role'' JNull)])))"
    using resp fc fld extract_first_choice [OF ch msg] by simp
  then show ?thesis
    by blast
qed

lemma chain_strings:
  assumes "null_or_str (dict_get mkvs ''reasoning'' JNull)"
    and "null_or_list (dict_get mkvs ''reasoning_details'' JNull)"
    and "null_or_list (dict_get kvs ''reasoning_details'' JNull)"
  shows "reasoning_chain (JDict kvs) (JDict mkvs) =
     Inr (JStr (first_nonempty
       [as_text (dict_get mkvs ''reasoning'' JNull),
        strip (joined_fragments (dict_get mkvs ''reasoning_details'' JNull)),
        strip (joined_fragments (dict_get kvs ''reasoning_details'' JNull))]))"
  using assms
  by (cases "dict_get mkvs ''reasoning'' JNull")
     (simp_all add: reasoning_chain_def bindE_Inr join_null_or_list py_or_def)

lemma chain_reasoning_str:
  assumes "dict_get mkvs ''reasoning'' JNull = JStr s" and "s \<noteq> []"
  shows "reasoning_chain resp (JDict mkvs) = Inr (JStr s)"
  using assms by (simp add: reasoning_chain_def bindE_Inr)

lemma py_get_Inr: "py_get v k d = Inr x \<Longrightarrow> \<exists>kvs. v = JDict kvs \<and> x = dict_get kvs k d"
  by (cases v) auto

lemma py_item0_dict:
  "py_item0 c = Inr (JDict ckvs) \<Longrightarrow> \<exists>rest. c = JList (JDict ckvs # rest)"
  by (cases c) (auto split: list.splits)

lemma bindE_InrD: "bindE m f = Inr y \<Longrightarrow> \<exists>v. m = Inr v \<and> f v = Inr y"
  by (cases m) (simp_all add: bindE_def)

lemma extract_InrD:
  assumes "extract_reasoning_and_answer render resp = Inr (t, a, m)"
  shows "\<exists>kvs. resp = JDict kvs \<and>
     (\<not> truthy (dict_get kvs ''choices'' JNull) \<and> t = [] \<or>
      (\<exists>ckvs rest mkvs r.
         dict_get kvs ''choices'' JNull = JList (JDict ckvs # rest) \<and>
         py_or (dict_get ckvs ''message'' (JDict [])) (JDict []) = JDict mkvs \<and>
         reasoning_chain resp (JDict mkvs) = Inr r \<and>
         t = py_str render (py_or r (JStr []))))"
proof -
  from assms obtain c where c: "py_get resp ''choices'' JNull = Inr c"
    unfolding extract_reasoning_and_answer_def by (auto dest!: bindE_InrD)
  then obtain kvs where resp: "resp = JDict kvs" and cv: "c = dict_get kvs ''choices'' JNull"
    by (auto dest: py_get_Inr)
  show ?thesis
  proof (cases "truthy c")
    case False
    with assms resp cv show ?thesis
      by (simp add: extract_no_choices)
  next
    case True
    then have po: "py_or c (JList []) = c"
      by (simp add: py_or_def)
    from assms True obtain choice0 where c0: "py_item0 c = Inr choice0"
      and rest: "bindE (py_get choice0 ''message'' (JDict [])) (\<lambda>m0.
              let msg = py_or m0 (JDict [])
              in bindE (reasoning_chain resp msg) (\<lambda>reasoning.
                 bindE (py_get msg ''content'' JNull) (\<lambda>c1.
                   let content = py_or c1 (JStr [])
                   in bindE (py_get choice0 ''finish_reason'' JNull) (\<lambda>fr.
                      bindE (py_get choice0 ''native_finish_reason'' JNull) (\<lambda>nfr.
                      bindE (py_get msg ''role'' JNull) (\<lambda>role.
                        let meta = [(''finish_reason'', fr),
                                    (''native_finish_reason'', nfr),
                                    (''role'', role)]
                        in Inr (py_str render (py_or reasoning (JStr [])),
                                py_str render (py_or content (JStr [])),
                                meta))))))) = Inr (t, a, m)"
      unfolding extract_reasoning_and_answer_def resp
      by (auto simp: bindE_Inr cv [symmetric] po Let_def dest!: bindE_InrD)
    from rest obtain m0 where m0: "py_get choice0 ''message'' (JDict []) = Inr m0"
      by (auto dest!: bindE_InrD)
    then obtain ckvs where ck: "choice0 = JDict ckvs"
      and m0v: "m0 = dict_get ckvs ''message'' (JDict [])"
      by (auto dest: py_get_Inr)
    from c0 ck obtain rs where cl: "c = JList (JDict ckvs # rs)"
      by (auto dest: py_item0_dict)
    from rest m0 obtain r where r: "reasoning_chain resp (py_or m0 (JDict [])) = Inr r"
      and rest2: "bindE (py_get (py_or m0 (JDict [])) ''content'' JNull) (\<lambda>c1.
                   let content = py_or c1 (JStr [])
                   in bindE (py_get choice0 ''finish_reason'' JNull) (\<lambda>fr.
                      bindE (py_get choice0 ''native_finish_reason'' JNull) (\<lambda>nfr.
                      bindE (py_get (py_or m0 (JDict [])) ''role'' JNull) (\<lambda>role.
                        let meta = [(''finish_reason'', fr),
                                    (''native_finish_reason'', nfr),
                                    (''role'', role)]
                        in Inr (py_str render (py_or r (JStr [])),
                                py_str render (py_or content (JStr [])),
                                meta))))) = Inr (t, a, m)"
      by (auto simp: bindE_Inr Let_def dest!: bindE_InrD)
    from rest2 obtain c1 where "py_get (py_or m0 (JDict [])) ''content'' JNull = Inr c1"
      by (auto dest!: bindE_InrD)
    then obtain mkvs where mk: "py_or m0 (JDict []) = JDict mkvs"
      by (auto dest: py_get_Inr)
    from rest2 mk ck have t: "t = py_str render (py_or r (JStr []))"
      by (simp add: bindE_Inr Let_def)
    have "dict_get kvs ''choices'' JNull = JList (JDict ckvs # rs)"
      using cv cl by simp
    moreover have "py_or (dict_get ckvs ''message'' (JDict [])) (JDict []) = JDict mkvs"
      using mk m0v by simp
    moreover have "reasoning_chain resp (JDict mkvs) = Inr r"
      using r mk by simp
    ultimately show ?thesis
      using resp t by blast
  qed
qed

lemma chain_no_source:
  assumes "dict_get mkvs ''reasoning'' JNull = JNull"
    and "dict_get mkvs ''reasoning_details'' JNull = JNull"
    and "dict_get kvs ''reasoning_details'' JNull = JNull"
  shows "reasoning_chain (JDict kvs) (JDict mkvs) = Inr (JStr [])"
  using chain_strings [of mkvs kvs] assms
  by (simp add: joined_fragments_def text_fragments_def strip_Nil)

lemma msg_no_key:
  assumes "py_or (dict_get ckvs ''message'' (JDict [])) (JDict []) = JDict mkvs"
    and "\<not> has_key (dict_get ckvs ''message'' JNull) k"
  shows "dict_get mkvs k JNull = JNull"
proof (cases "map_of ckvs ''message''")
  case None
  with assms show ?thesis by (simp add: dict_get_def py_or_def)
next
  case (Some v)
  with assms show ?thesis
    by (cases "truthy v") (auto simp: dict_get_def py_or_def)
qed

lemma join_iterable:
  "iterable_or_false d \<Longrightarrow> \<exists>j. join_reasoning_details d = Inr j"
  by (cases d) (simp_all add: join_reasoning_details_def bindE_Inr)

lemma chain_iterable:
  assumes "iterable_or_false (dict_get mkvs ''reasoning_details'' JNull)"
    and "iterable_or_false (dict_get kvs ''reasoning_details'' JNull)"
  shows "\<exists>r. reasoning_chain (JDict kvs) (JDict mkvs) = Inr r"
proof -
  from join_iterable [OF assms(1)] obtain j1
    where j1: "join_reasoning_details (dict_get mkvs ''reasoning_details'' JNull) = Inr j1"
    by blast
  from join_iterable [OF assms(2)] obtain j2
    where j2: "join_reasoning_details (dict_get kvs ''reasoning_details'' JNull) = Inr j2"
    by blast
  show ?thesis
    by (simp add: reasoning_chain_def bindE_Inr j1 j2)
qed

lemma fragment_no_text: "\<not> has_text d \<Longrightarrow> fragment d = []"
  by (cases d) (auto split: json.splits)

lemma join_skip:
  assumes "\<not> has_text d"
  shows "join_reasoning_details (JList (ds1 @ d # ds2)) = join_reasoning_details (JList (ds1 @ ds2))"
  using assms by (simp add: join_list text_fragments_def fragment_no_text)

section \<open>Lemmas on the converter\<close>

lemma convert_row_dataset_row:
  assumes "dataset_row ex"
  shows "convert_row render ex =
     Inr (chat_record (strip (as_text (fieldv ex ''question'')))
            (strip (first_trajectory ex))
            (strip (py_str render (fieldv ex ''attempt''))))"
proof -
  from assms obtain kvs where ex: "ex = JDict kvs"
    by (cases ex) (simp_all add: dataset_row_def)
  from assms ex obtain q where q: "map_of kvs ''question'' = Some (JStr q)"
    by (cases "map_of kvs ''question''"; cases "dict_get kvs ''question'' JNull")
       (auto simp: dataset_row_def dict_get_def)
  from assms ex obtain av where av: "map_of kvs ''attempt'' = Some av"
    by (auto simp: dataset_row_def)
  from assms ex have "trajectories_ok (dict_get kvs ''thinking_trajectories'' JNull)"
    by (simp add: dataset_row_def)
  then have tr: "(if truthy (py_or (dict_get kvs ''thinking_trajectories'' JNull) (JList []))
                then py_item0 (py_or (dict_get kvs ''thinking_trajectories'' JNull) (JList []))
                else Inr (JStr [])) = Inr (JStr (first_trajectory ex))"
    by (cases "dict_get kvs ''thinking_trajectories'' JNull" rule: trajectories_ok.cases)
       (simp_all add: py_or_def first_trajectory_def ex)
  have qa: "dict_get kvs ''question'' JNull = JStr q" "dict_get kvs ''attempt'' JNull = av"
    using q av by (simp_all add: dict_get_def)
  show ?thesis
    by (simp add: convert_row_def ex q av qa tr bindE_Inr chat_record_def Let_def)
qed


lemma write_rows_dataset:
  assumes "\<forall>ex \<in> set ds. dataset_row ex"
  shows "write_rows render ds out =
     (out @ map (\<lambda>ex. chat_record (strip (as_text (fieldv ex ''question'')))
                        (strip (first_trajectory ex))
                        (strip (py_str render (fieldv ex ''attempt'')))) ds, None)"
  using assms
  by (induction ds arbitrary: out) (simp_all add: convert_row_dataset_row)

lemma roles_chat_record:
  "roles_of (chat_record q t a) = [JStr ''user'', JStr ''think'', JStr ''answer'']"
  by (simp add: roles_of_def messages_of_def chat_record_def dict_get_def)

lemma content_chat_record:
  "content_of (chat_record q t a) ''user'' = [JStr q]"
  "content_of (chat_record q t a) ''think'' = [JStr t]"
  "content_of (chat_record q t a) ''answer'' = [JStr a]"
  by (simp_all add: content_of_def messages_of_def chat_record_def dict_get_def)

section \<open>Lemmas on the question, the request and the main program\<close>

lemma scan_lines_none:
  "idx < i \<or> i + int (length ls) \<le> idx \<Longrightarrow> scan_lines i idx ls = None"
  by (induction ls arbitrary: i) auto






















section \<open>The claims\<close>

text \<open>
  C1 (as amended). On every chat-completions response the reasoning trace returned by
  \<^verbatim>\<open>extract_reasoning_and_answer\<close> is the first non-empty value in the order:
  \<^verbatim>\<open>message.reasoning\<close> of the first choice, then the newline-joined text fragments of
  \<^verbatim>\<open>message.reasoning_details\<close> stripped of surrounding whitespace, then the
  newline-joined text fragments of the top-level \<^verbatim>\<open>reasoning_details\<close> stripped of
  surrounding whitespace. In particular, when \<^verbatim>\<open>message.reasoning\<close> is a non-empty string
  the trace equals it, whatever the \<^verbatim>\<open>reasoning_details\<close> are.
\<close>

theorem extract_reasoning_first_nonempty:
  "(chat_response resp \<longrightarrow>
      (\<exists>a m. extract_reasoning_and_answer render resp = Inr (stripped_trace resp, a, m))) \<and>
   (has_first_choice resp \<and> fieldv (message_of resp) ''reasoning'' = JStr s \<and> s \<noteq> [] \<longrightarrow>
      (\<exists>a m. extract_reasoning_and_answer render resp = Inr (s, a, m)))"
proof (intro conjI impI)
  assume cr: "chat_response resp"
  then have "has_first_choice resp"
    by (simp add: chat_response_def)
  from extract_with_first_choice [OF this] obtain kvs ckvs mkvs
    where resp: "resp = JDict kvs"
      and fld: "\<And>k. dict_get mkvs k JNull = fieldv (message_of resp) k"
      and ex: "\<And>render. extract_reasoning_and_answer render resp =
        bindE (reasoning_chain resp (JDict mkvs)) (\<lambda>reasoning.
          Inr (py_str render (py_or reasoning (JStr [])),
               py_str render (py_or (dict_get mkvs ''content'' JNull) (JStr [])),
               [(''finish_reason'', dict_get ckvs ''finish_reason'' JNull),
                (''native_finish_reason'', dict_get ckvs ''native_finish_reason'' JNull),
                (''role'', dict_get mkvs ''role'' JNull)]))"
    by blast
  have "reasoning_chain resp (JDict mkvs) = Inr (JStr (stripped_trace resp))"
    using cr chain_strings [of mkvs kvs]
    by (simp add: fld chat_response_def stripped_trace_def resp)
  then show "\<exists>a m. extract_reasoning_and_answer render resp = Inr (stripped_trace resp, a, m)"
    by (simp add: ex bindE_Inr py_or_def)
next
  assume h: "has_first_choice resp \<and> fieldv (message_of resp) ''reasoning'' = JStr s \<and> s \<noteq> []"
  then have "has_first_choice resp"
    by simp
  from extract_with_first_choice [OF this] obtain ckvs mkvs
    where fld: "\<And>k. dict_get mkvs k JNull = fieldv (message_of resp) k"
      and ex: "\<And>render. extract_reasoning_and_answer render resp =
        bindE (reasoning_chain resp (JDict mkvs)) (\<lambda>reasoning.
          Inr (py_str render (py_or reasoning (JStr [])),
               py_str render (py_or (dict_get mkvs ''content'' JNull) (JStr [])),
               [(''finish_reason'', dict_get ckvs ''finish_reason'' JNull),
                (''native_finish_reason'', dict_get ckvs ''native_finish_reason'' JNull),
                (''role'', dict_get mkvs ''role'' JNull)]))"
    by blast
  have "reasoning_chain resp (JDict mkvs) = Inr (JStr s)"
    using h by (intro chain_reasoning_str) (simp_all add: fld)
  then show "\<exists>a m. extract_reasoning_and_answer render resp = Inr (s, a, m)"
    using h by (simp add: ex bindE_Inr py_or_def)
qed

text \<open>
  The theorem at two responses: one with no \<^verbatim>\<open>message.reasoning\<close>, where the trace is the
  stripped text of \<^verbatim>\<open>message.reasoning_details\<close>, and one where \<^verbatim>\<open>message.reasoning\<close>
  wins over the details.
\<close>

theorem extract_reasoning_first_nonempty_witness:
  "chat_response
     (JDict [(''choices'', JList [JDict [(''message'',
        JDict [(''reasoning_details'', JList [JDict [(''text'', JStr ''step 1 '')], JInt 7]),
               (''content'', JStr ''42'')])]]),
             (''reasoning_details'', JList [JDict [(''text'', JStr ''top'')]])]) \<and>
   (\<exists>a m. extract_reasoning_and_answer (\<lambda>v. [])
     (JDict [(''choices'', JList [JDict [(''message'',
        JDict [(''reasoning_details'', JList [JDict [(''text'', JStr ''step 1 '')], JInt 7]),
               (''content'', JStr ''42'')])]]),
             (''reasoning_details'', JList [JDict [(''text'', JStr ''top'')]])])
     = Inr (''step 1'', a, m)) \<and>
   has_first_choice
     (JDict [(''choices'', JList [JDict [(''message'',
        JDict [(''reasoning'', JStr ''think''),
               (''reasoning_details'', JList [JDict [(''text'', JStr ''other'')]])])]])]) \<and>
   (\<exists>a m. extract_reasoning_and_answer (\<lambda>v. [])
     (JDict [(''choices'', JList [JDict [(''message'',
        JDict [(''reasoning'', JStr ''think''),
               (''reasoning_details'', JList [JDict [(''text'', JStr ''other'')]])])]])])
     = Inr (''think'', a, m))"
  using extract_reasoning_first_nonempty [of
      "JDict [(''choices'', JList [JDict [(''message'',
        JDict [(''reasoning_details'', JList [JDict [(''text'', JStr ''step 1 '')], JInt 7]),
               (''content'', JStr ''42'')])]]),
             (''reasoning_details'', JList [JDict [(''text'', JStr ''top'')]])]"
      "\<lambda>v. []" "[]"]
    extract_reasoning_first_nonempty [of
      "JDict [(''choices'', JList [JDict [(''message'',
        JDict [(''reasoning'', JStr ''think''),
               (''reasoning_details'', JList [JDict [(''text'', JStr ''other'')]])])]])]"
      "\<lambda>v. []" "''think''"]
  by (simp add: chat_response_def has_first_choice_def first_choice_def message_of_def
      dict_get_def stripped_trace_def joined_fragments_def text_fragments_def strip_def
      isspace_def)

text \<open>
  C1 as stated fails: the joined text is stripped before it is tested and returned, so
  the trace of a response whose only fragment is \<^verbatim>\<open>"ok "\<close> is \<^verbatim>\<open>"ok"\<close>, not the joined
  fragments themselves.
\<close>

theorem extract_reasoning_unstripped_counterexample:
  "extract_reasoning_and_answer (\<lambda>v. [])
     (JDict [(''choices'', JList [JDict [(''message'',
        JDict [(''reasoning_details'', JList [JDict [(''text'', JStr ''ok '')]])])]])])
   = Inr (''ok'', [], [(''finish_reason'', JNull), (''native_finish_reason'', JNull),
                       (''role'', JNull)]) \<and>
   claimed_trace
     (JDict [(''choices'', JList [JDict [(''message'',
        JDict [(''reasoning_details'', JList [JDict [(''text'', JStr ''ok '')]])])]])])
   = ''ok ''"
  by (simp add: extract_reasoning_and_answer_def reasoning_chain_def
      join_reasoning_details_def bindE_def py_or_def dict_get_def strip_def isspace_def
      claimed_trace_def joined_fragments_def text_fragments_def first_choice_def
      message_of_def)

text \<open>
  C2. On every response in which none of the three reasoning sources is present
  (\<^verbatim>\<open>message.reasoning\<close>, \<^verbatim>\<open>message.reasoning_details\<close>, the top-level
  \<^verbatim>\<open>reasoning_details\<close>), every trace that \<^verbatim>\<open>extract_reasoning_and_answer\<close> returns is the
  empty string; and it does return one when \<^verbatim>\<open>choices\<close> is missing, false, or a list whose
  first element is a dict with a message that is missing, \<^verbatim>\<open>None\<close> or a dict.
\<close>

theorem extract_no_source_empty_trace:
  "no_reasoning_source resp \<longrightarrow>
     (\<forall>t a m. extract_reasoning_and_answer render resp = Inr (t, a, m) \<longrightarrow> t = []) \<and>
     (is_dict resp \<and> (\<not> truthy (fieldv resp ''choices'') \<or> has_first_choice resp) \<longrightarrow>
        (\<exists>a m. extract_reasoning_and_answer render resp = Inr ([], a, m)))"
proof (intro impI conjI allI)
  fix t a m
  assume ns: "no_reasoning_source resp"
    and ex: "extract_reasoning_and_answer render resp = Inr (t, a, m)"
  from extract_InrD [OF ex] obtain kvs where resp: "resp = JDict kvs"
    and alt: "\<not> truthy (dict_get kvs ''choices'' JNull) \<and> t = [] \<or>
      (\<exists>ckvs rest mkvs r.
         dict_get kvs ''choices'' JNull = JList (JDict ckvs # rest) \<and>
         py_or (dict_get ckvs ''message'' (JDict [])) (JDict []) = JDict mkvs \<and>
         reasoning_chain resp (JDict mkvs) = Inr r \<and>
         t = py_str render (py_or r (JStr [])))"
    by blast
  from alt show "t = []"
  proof
    assume "\<not> truthy (dict_get kvs ''choices'' JNull) \<and> t = []"
    then show ?thesis by simp
  next
    assume "\<exists>ckvs rest mkvs r.
         dict_get kvs ''choices'' JNull = JList (JDict ckvs # rest) \<and>
         py_or (dict_get ckvs ''message'' (JDict [])) (JDict []) = JDict mkvs \<and>
         reasoning_chain resp (JDict mkvs) = Inr r \<and>
         t = py_str render (py_or r (JStr []))"
    then obtain ckvs rest mkvs r
      where ch: "dict_get kvs ''choices'' JNull = JList (JDict ckvs # rest)"
        and msg: "py_or (dict_get ckvs ''message'' (JDict [])) (JDict []) = JDict mkvs"
        and r: "reasoning_chain resp (JDict mkvs) = Inr r"
        and t: "t = py_str render (py_or r (JStr []))"
      by blast
    have mo: "message_of resp = dict_get ckvs ''message'' JNull"
      by (simp add: message_of_def first_choice_def resp ch)
    have k1: "dict_get mkvs ''reasoning'' JNull = JNull"
      using ns msg_no_key [OF msg, of "''reasoning''"]
      by (simp add: no_reasoning_source_def mo)
    have k2: "dict_get mkvs ''reasoning_details'' JNull = JNull"
      using ns msg_no_key [OF msg, of "''reasoning_details''"]
      by (simp add: no_reasoning_source_def mo)
    have k3: "dict_get kvs ''reasoning_details'' JNull = JNull"
      using ns by (simp add: no_reasoning_source_def resp dict_get_def)
    have "reasoning_chain resp (JDict mkvs) = Inr (JStr [])"
      unfolding resp by (rule chain_no_source [OF k1 k2 k3])
    with r have "r = JStr []"
      by simp
    with t show ?thesis
      by (simp add: py_or_def)
  qed
next
  assume ns: "no_reasoning_source resp"
    and sh: "is_dict resp \<and> (\<not> truthy (fieldv resp ''choices'') \<or> has_first_choice resp)"
  then obtain kvs where resp: "resp = JDict kvs"
    by (cases resp) simp_all
  from sh have "\<not> truthy (fieldv resp ''choices'') \<or> has_first_choice resp"
    by simp
  then show "\<exists>a m. extract_reasoning_and_answer render resp = Inr ([], a, m)"
  proof
    assume "\<not> truthy (fieldv resp ''choices'')"
    then show ?thesis
      by (simp add: resp extract_no_choices)
  next
    assume fc: "has_first_choice resp"
    from extract_with_first_choice [OF this] obtain ckvs mkvs
      where fld: "\<And>k. dict_get mkvs k JNull = fieldv (message_of resp) k"
        and ex: "\<And>render. extract_reasoning_and_answer render resp =
          bindE (reasoning_chain resp (JDict mkvs)) (\<lambda>reasoning.
            Inr (py_str render (py_or reasoning (JStr [])),
                 py_str render (py_or (dict_get mkvs ''content'' JNull) (JStr [])),
                 [(''finish_reason'', dict_get ckvs ''finish_reason'' JNull),
                  (''native_finish_reason'', dict_get ckvs ''native_finish_reason'' JNull),
                  (''role'', dict_get mkvs ''role'' JNull)]))"
      by blast
    have nk: "fieldv v k = JNull" if "\<not> has_key v k" for v k
      using that by (cases v) (simp_all add: dict_get_def)
    have k1: "dict_get mkvs ''reasoning'' JNull = JNull"
      using ns by (simp add: fld nk no_reasoning_source_def)
    have k2: "dict_get mkvs ''reasoning_details'' JNull = JNull"
      using ns by (simp add: fld nk no_reasoning_source_def)
    have k3: "dict_get kvs ''reasoning_details'' JNull = JNull"
      using ns by (simp add: no_reasoning_source_def resp dict_get_def)
    have "reasoning_chain resp (JDict mkvs) = Inr (JStr [])"
      unfolding resp by (rule chain_no_source [OF k1 k2 k3])
    then show ?thesis
      by (simp add: ex bindE_Inr py_or_def)
  qed
qed

theorem extract_no_source_empty_trace_witness:
  "no_reasoning_source
     (JDict [(''choices'', JList [JDict [(''message'', JDict [(''content'', JStr ''4'')]),
                                         (''finish_reason'', JStr ''stop'')]])]) \<and>
   has_first_choice
     (JDict [(''choices'', JList [JDict [(''message'', JDict [(''content'', JStr ''4'')]),
                                         (''finish_reason'', JStr ''stop'')]])]) \<and>
   extract_reasoning_and_answer (\<lambda>v. [])
     (JDict [(''choices'', JList [JDict [(''message'', JDict [(''content'', JStr ''4'')]),
                                         (''finish_reason'', JStr ''stop'')]])])
   = Inr ([], ''4'', [(''finish_reason'', JStr ''stop''), (''native_finish_reason'', JNull),
                      (''role'', JNull)])"
  using extract_no_source_empty_trace [of
      "JDict [(''choices'', JList [JDict [(''message'', JDict [(''content'', JStr ''4'')]),
                                          (''finish_reason'', JStr ''stop'')]])]"
      "\<lambda>v. []"]
  by (simp add: no_reasoning_source_def has_first_choice_def first_choice_def message_of_def
      dict_get_def extract_reasoning_and_answer_def reasoning_chain_def
      join_reasoning_details_def bindE_def py_or_def)

text \<open>
  C3. For every dataset row (a string \<^verbatim>\<open>question\<close>, an \<^verbatim>\<open>attempt\<close>) whose
  \<^verbatim>\<open>thinking_trajectories\<close> is a non-empty list that starts with a string, the converter
  produces a record, and the content of its \<^verbatim>\<open>think\<close> message is that first element with
  surrounding whitespace stripped.
\<close>

theorem think_is_first_trajectory_stripped:
  "is_str (fieldv ex ''question'') \<and> has_key ex ''attempt'' \<and>
   fieldv ex ''thinking_trajectories'' = JList (JStr s # rest) \<longrightarrow>
     (\<exists>r. convert_row render ex = Inr r \<and> content_of r ''think'' = [JStr (strip s)])"
proof
  assume h: "is_str (fieldv ex ''question'') \<and> has_key ex ''attempt'' \<and>
     fieldv ex ''thinking_trajectories'' = JList (JStr s # rest)"
  then have "dataset_row ex"
    by (simp add: dataset_row_def)
  from convert_row_dataset_row [OF this, of render] h
  show "\<exists>r. convert_row render ex = Inr r \<and> content_of r ''think'' = [JStr (strip s)]"
    by (simp add: content_chat_record first_trajectory_def)
qed

theorem think_is_first_trajectory_stripped_witness:
  "is_str (fieldv (JDict [(''question'', JStr '' 2+2? ''), (''attempt'', JStr ''4''),
       (''thinking_trajectories'', JList [JStr '' Add the numbers. '', JStr ''other''])])
     ''question'') \<and>
   has_key (JDict [(''question'', JStr '' 2+2? ''), (''attempt'', JStr ''4''),
       (''thinking_trajectories'', JList [JStr '' Add the numbers. '', JStr ''other''])])
     ''attempt'' \<and>
   (\<exists>r. convert_row (\<lambda>v. [])
       (JDict [(''question'', JStr '' 2+2? ''), (''attempt'', JStr ''4''),
         (''thinking_trajectories'', JList [JStr '' Add the numbers. '', JStr ''other''])])
       = Inr r \<and> content_of r ''think'' = [JStr ''Add the numbers.''])"
  using think_is_first_trajectory_stripped [of
      "JDict [(''question'', JStr '' 2+2? ''), (''attempt'', JStr ''4''),
         (''thinking_trajectories'', JList [JStr '' Add the numbers. '', JStr ''other''])]"
      "'' Add the numbers. ''" "[JStr ''other'']" "\<lambda>v. []"]
  by (simp add: dict_get_def strip_def isspace_def)

text \<open>
  C4. For every dataset row whose \<^verbatim>\<open>thinking_trajectories\<close> is absent, \<^verbatim>\<open>None\<close> or an empty
  list, the converter produces a record, and the content of its \<^verbatim>\<open>think\<close> message is the
  empty string.
\<close>

theorem think_is_empty_without_trajectories:
  "is_str (fieldv ex ''question'') \<and> has_key ex ''attempt'' \<and>
   (\<not> has_key ex ''thinking_trajectories'' \<or>
    fieldv ex ''thinking_trajectories'' = JNull \<or>
    fieldv ex ''thinking_trajectories'' = JList []) \<longrightarrow>
     (\<exists>r. convert_row render ex = Inr r \<and> content_of r ''think'' = [JStr []])"
proof
  assume h: "is_str (fieldv ex ''question'') \<and> has_key ex ''attempt'' \<and>
   (\<not> has_key ex ''thinking_trajectories'' \<or>
    fieldv ex ''thinking_trajectories'' = JNull \<or>
    fieldv ex ''thinking_trajectories'' = JList [])"
  have nk: "fieldv v k = JNull" if "\<not> has_key v k" for v k
    using that by (cases v) (simp_all add: dict_get_def)
  from h have tt: "fieldv ex ''thinking_trajectories'' = JNull \<or>
    fieldv ex ''thinking_trajectories'' = JList []"
    using nk by blast
  then have "dataset_row ex"
    using h by (auto simp: dataset_row_def)
  from convert_row_dataset_row [OF this, of render] tt
  show "\<exists>r. convert_row render ex = Inr r \<and> content_of r ''think'' = [JStr []]"
    by (auto simp: content_chat_record first_trajectory_def strip_Nil)
qed

theorem think_is_empty_without_trajectories_witness:
  "is_str (fieldv (JDict [(''question'', JStr ''2+2?''), (''attempt'', JStr ''4''),
       (''thinking_trajectories'', JNull)]) ''question'') \<and>
   has_key (JDict [(''question'', JStr ''2+2?''), (''attempt'', JStr ''4''),
       (''thinking_trajectories'', JNull)]) ''attempt'' \<and>
   fieldv (JDict [(''question'', JStr ''2+2?''), (''attempt'', JStr ''4''),
       (''thinking_trajectories'', JNull)]) ''thinking_trajectories'' = JNull \<and>
   (\<exists>r. convert_row (\<lambda>v. [])
       (JDict [(''question'', JStr ''2+2?''), (''attempt'', JStr ''4''),
         (''thinking_trajectories'', JNull)])
       = Inr r \<and> content_of r ''think'' = [JStr []])"
  using think_is_empty_without_trajectories [of
      "JDict [(''question'', JStr ''2+2?''), (''attempt'', JStr ''4''),
         (''thinking_trajectories'', JNull)]" "\<lambda>v. []"]
  by (simp add: dict_get_def)

text \<open>
  C5. On a dataset of such rows the converter ends without an exception and has written
  exactly one record per row, in the order of the rows; the record of a row has exactly
  three messages, with the roles \<^verbatim>\<open>user\<close>, \<^verbatim>\<open>think\<close>, \<^verbatim>\<open>answer\<close> in this order, the \<^verbatim>\<open>user\<close>
  content being the stripped question and the \<^verbatim>\<open>answer\<close> content the stringified,
  stripped attempt.
\<close>

theorem one_record_per_row_three_messages:
  "(\<forall>ex \<in> set ds. dataset_row ex) \<longrightarrow>
     (\<exists>recs. prep_s1k_chatml render ds = (recs, None) \<and> length recs = length ds \<and>
        (\<forall>i < length ds.
           roles_of (recs ! i) = [JStr ''user'', JStr ''think'', JStr ''answer''] \<and>
           length (messages_of (recs ! i)) = 3 \<and>
           content_of (recs ! i) ''user'' = [JStr (strip (as_text (fieldv (ds ! i) ''question'')))] \<and>
           content_of (recs ! i) ''answer'' =
             [JStr (strip (py_str render (fieldv (ds ! i) ''attempt'')))] \<and>
           convert_row render (ds ! i) = Inr (recs ! i)))"
proof
  assume ok: "\<forall>ex \<in> set ds. dataset_row ex"
  let ?f = "\<lambda>ex. chat_record (strip (as_text (fieldv ex ''question'')))
                        (strip (first_trajectory ex))
                        (strip (py_str render (fieldv ex ''attempt'')))"
  have w: "prep_s1k_chatml render ds = (map ?f ds, None)"
    using write_rows_dataset [OF ok, of render "[]"] by (simp add: prep_s1k_chatml_def)
  have "roles_of (map ?f ds ! i) = [JStr ''user'', JStr ''think'', JStr ''answer''] \<and>
           length (messages_of (map ?f ds ! i)) = 3 \<and>
           content_of (map ?f ds ! i) ''user'' = [JStr (strip (as_text (fieldv (ds ! i) ''question'')))] \<and>
           content_of (map ?f ds ! i) ''answer'' =
             [JStr (strip (py_str render (fieldv (ds ! i) ''attempt'')))] \<and>
           convert_row render (ds ! i) = Inr (map ?f ds ! i)" if "i < length ds" for i
  proof -
    from that ok have "dataset_row (ds ! i)"
      by simp
    from convert_row_dataset_row [OF this, of render] that show ?thesis
      by (simp add: roles_chat_record content_chat_record)
         (simp add: messages_of_def chat_record_def dict_get_def)
  qed
  with w show "\<exists>recs. prep_s1k_chatml render ds = (recs, None) \<and> length recs = length ds \<and>
        (\<forall>i < length ds.
           roles_of (recs ! i) = [JStr ''user'', JStr ''think'', JStr ''answer''] \<and>
           length (messages_of (recs ! i)) = 3 \<and>
           content_of (recs ! i) ''user'' = [JStr (strip (as_text (fieldv (ds ! i) ''question'')))] \<and>
           content_of (recs ! i) ''answer'' =
             [JStr (strip (py_str render (fieldv (ds ! i) ''attempt'')))] \<and>
           convert_row render (ds ! i) = Inr (recs ! i))"
    by (intro exI [of _ "map ?f ds"]) simp
qed

theorem one_record_per_row_three_messages_witness:
  "dataset_row (JDict [(''question'', JStr ''2+2?''), (''attempt'', JStr ''4 ''),
       (''thinking_trajectories'', JList [JStr ''Add the numbers.''])]) \<and>
   dataset_row (JDict [(''question'', JStr '' 1+1?''), (''attempt'', JStr ''2'')]) \<and>
   prep_s1k_chatml (\<lambda>v. [])
     [JDict [(''question'', JStr ''2+2?''), (''attempt'', JStr ''4 ''),
        (''thinking_trajectories'', JList [JStr ''Add the numbers.''])],
      JDict [(''question'', JStr '' 1+1?''), (''attempt'', JStr ''2'')]]
   = ([JDict [(''messages'', JList
         [JDict [(''role'', JStr ''user''), (''content'', JStr ''2+2?'')],
          JDict [(''role'', JStr ''think''), (''content'', JStr ''Add the numbers.'')],
          JDict [(''role'', JStr ''answer''), (''content'', JStr ''4'')]])],
       JDict [(''messages'', JList
         [JDict [(''role'', JStr ''user''), (''content'', JStr ''1+1?'')],
          JDict [(''role'', JStr ''think''), (''content'', JStr [])],
          JDict [(''role'', JStr ''answer''), (''content'', JStr ''2'')]])]], None)"
  using one_record_per_row_three_messages [of
     "[JDict [(''question'', JStr ''2+2?''), (''attempt'', JStr ''4 ''),
        (''thinking_trajectories'', JList [JStr ''Add the numbers.''])],
      JDict [(''question'', JStr '' 1+1?''), (''attempt'', JStr ''2'')]]" "\<lambda>v. []"]
  by (simp add: dataset_row_def dict_get_def prep_s1k_chatml_def convert_row_def bindE_def
      py_or_def strip_def isspace_def)

text \<open>
  C6 (as amended). For every HTTP response with a status code from 400 to 599,
  \<^verbatim>\<open>call_openrouter\<close> raises an HTTP error instead of returning a result. For every other
  status code it returns the parsed JSON body when the body is JSON, and raises a decoding
  error when it is not; in particular it returns the parsed body of every 2xx response
  whose body is JSON.
\<close>

theorem call_openrouter_raises_on_4xx_5xx:
  "(400 \<le> status_code resp \<and> status_code resp < 600 \<longrightarrow>
      call_openrouter (\<lambda>u h p t. Some resp) loads k m msgs mt temp jm tmo rf ti re iu =
        Inl (HTTPError (status_code resp))) \<and>
   (\<not> (400 \<le> status_code resp \<and> status_code resp < 600) \<longrightarrow>
      call_openrouter (\<lambda>u h p t. Some resp) loads k m msgs mt temp jm tmo rf ti re iu =
        (case loads (body resp) of None \<Rightarrow> Inl JSONDecodeError | Some v \<Rightarrow> Inr v)) \<and>
   (200 \<le> status_code resp \<and> status_code resp < 300 \<and> loads (body resp) = Some v \<longrightarrow>
      call_openrouter (\<lambda>u h p t. Some resp) loads k m msgs mt temp jm tmo rf ti re iu = Inr v)"
  by (simp add: call_openrouter_def Let_def bindE_def raise_for_status_def response_json_def
      requests_post_def)

theorem call_openrouter_raises_on_4xx_5xx_witness:
  "call_openrouter (\<lambda>u h p t. Some \<lparr>status_code = 404, body = ''not found''\<rparr>)
     (\<lambda>s. if s = ''{}'' then Some (JDict []) else None)
     ''key'' ''m'' [] 16 0 False 120 None None None False = Inl (HTTPError 404) \<and>
   call_openrouter (\<lambda>u h p t. Some \<lparr>status_code = 200, body = ''{}''\<rparr>)
     (\<lambda>s. if s = ''{}'' then Some (JDict []) else None)
     ''key'' ''m'' [] 16 0 False 120 None None None False = Inr (JDict []) \<and>
   call_openrouter (\<lambda>u h p t. Some \<lparr>status_code = 200, body = ''<html>''\<rparr>)
     (\<lambda>s. if s = ''{}'' then Some (JDict []) else None)
     ''key'' ''m'' [] 16 0 False 120 None None None False = Inl JSONDecodeError"
  using call_openrouter_raises_on_4xx_5xx [of "\<lparr>status_code = 404, body = ''not found''\<rparr>"
      "\<lambda>s. if s = ''{}'' then Some (JDict []) else None" "''key''" "''m''" "[]" 16 0 False 120
      None None None False "JDict []"]
    call_openrouter_raises_on_4xx_5xx [of "\<lparr>status_code = 200, body = ''{}''\<rparr>"
      "\<lambda>s. if s = ''{}'' then Some (JDict []) else None" "''key''" "''m''" "[]" 16 0 False 120
      None None None False "JDict []"]
    call_openrouter_raises_on_4xx_5xx [of "\<lparr>status_code = 200, body = ''<html>''\<rparr>"
      "\<lambda>s. if s = ''{}'' then Some (JDict []) else None" "''key''" "''m''" "[]" 16 0 False 120
      None None None False "JDict []"]
  by simp

text \<open>
  C6 as stated fails: \<^verbatim>\<open>raise_for_status\<close> raises for 4xx and 5xx only, so a response with
  status 300 and a JSON body is parsed and returned.
\<close>

theorem call_openrouter_returns_on_3xx_counterexample:
  "call_openrouter (\<lambda>u h p t. Some \<lparr>status_code = 300, body = ''{}''\<rparr>)
     (\<lambda>s. if s = ''{}'' then Some (JDict []) else None)
     ''key'' ''m'' [] 16 0 False 120 None None None False = Inr (JDict [])"
  by (simp add: call_openrouter_def Let_def bindE_def raise_for_status_def response_json_def
      requests_post_def)




text \<open>
  C8. When the question is taken from a JSONL source (no explicit question, a non-empty
  path), a missing file makes \<^verbatim>\<open>load_question\<close> raise \<^verbatim>\<open>SystemExit\<close> with the message
  "JSONL not found", and a row index that matches no line (below 0, or not below the number
  of lines) makes it raise \<^verbatim>\<open>SystemExit\<close> with the message "Index out of range"; no
  question is returned, and \<^verbatim>\<open>main\<close>, on a command line that parses and with the API key
  set, ends with that \<^verbatim>\<open>SystemExit\<close>.
\<close>

theorem load_question_exits_on_missing_row:
  "(\<not> truthy_opt fallback \<and> p \<noteq> [] \<and> files p = None \<longrightarrow>
      load_question files loads (Some p) idx fallback =
        ([Path_exists p], Inl (SystemExit_msg (JSONL_not_found p)))) \<and>
   (\<not> truthy_opt fallback \<and> p \<noteq> [] \<and> files p = Some ls \<and>
    (idx < 0 \<or> int (length ls) \<le> idx) \<longrightarrow>
      load_question files loads (Some p) idx fallback =
        ([Path_exists p, Open_file p], Inl (SystemExit_msg (Index_out_of_range idx p)))) \<and>
   (parse_args argv = Namespace a \<and> truthy_opt (environ ''OPENROUTER_API_KEY'') \<and>
    \<not> truthy_opt (question a) \<and> from_jsonl a = Some p \<and> p \<noteq> [] \<and>
    (files p = None \<or> files p = Some ls \<and> (index a < 0 \<or> int (length ls) \<le> index a)) \<longrightarrow>
      (\<exists>msg. main parse_args argv environ files loads post console render =
         Inl (SystemExit_msg msg)))"
proof -
  have p1: "load_question files loads (Some p) idx fallback =
        ([Path_exists p], Inl (SystemExit_msg (JSONL_not_found p)))"
    if "\<not> truthy_opt fallback \<and> p \<noteq> [] \<and> files p = None" for idx fallback
    using that by (simp add: load_question_def)
  have p2: "load_question files loads (Some p) idx fallback =
        ([Path_exists p, Open_file p], Inl (SystemExit_msg (Index_out_of_range idx p)))"
    if "\<not> truthy_opt fallback \<and> p \<noteq> [] \<and> files p = Some ls \<and>
      (idx < 0 \<or> int (length ls) \<le> idx)" for idx fallback
    using that by (auto simp: load_question_def scan_lines_none)
  have p3: "\<exists>msg. main parse_args argv environ files loads post console render =
      Inl (SystemExit_msg msg)"
    if h: "parse_args argv = Namespace a \<and> truthy_opt (environ ''OPENROUTER_API_KEY'') \<and>
      \<not> truthy_opt (question a) \<and> from_jsonl a = Some p \<and> p \<noteq> [] \<and>
      (files p = None \<or> files p = Some ls \<and> (index a < 0 \<or> int (length ls) \<le> index a))"
  proof -
    from h have "\<exists>msg. snd (load_question files loads (from_jsonl a) (index a) (question a)) =
        Inl (SystemExit_msg msg)"
      using p1 [of "question a" "index a"] p2 [of "question a" "index a"] by auto
    with h show ?thesis
      by (auto simp: main_def bindE_Inl)
  qed
  from p1 p2 p3 show ?thesis
    by blast
qed

theorem load_question_exits_on_missing_row_witness:
  "\<not> truthy_opt None \<and>
   load_question (\<lambda>p. None) (\<lambda>s. None) (Some ''rows.jsonl'') 0 None =
     ([Path_exists ''rows.jsonl''], Inl (SystemExit_msg (JSONL_not_found ''rows.jsonl''))) \<and>
   load_question (\<lambda>p. if p = ''rows.jsonl'' then Some [''{}'', ''{}''] else None)
       (\<lambda>s. Some (JDict [])) (Some ''rows.jsonl'') (- 1) None =
     ([Path_exists ''rows.jsonl'', Open_file ''rows.jsonl''],
      Inl (SystemExit_msg (Index_out_of_range (- 1) ''rows.jsonl''))) \<and>
   load_question (\<lambda>p. if p = ''rows.jsonl'' then Some [''{}'', ''{}''] else None)
       (\<lambda>s. Some (JDict [])) (Some ''rows.jsonl'') 2 None =
     ([Path_exists ''rows.jsonl'', Open_file ''rows.jsonl''],
      Inl (SystemExit_msg (Index_out_of_range 2 ''rows.jsonl''))) \<and>
   truthy_opt ((\<lambda>k. if k = ''OPENROUTER_API_KEY'' then Some ''sk-1'' else None)
     ''OPENROUTER_API_KEY'') \<and>
   (\<exists>msg. main
      (\<lambda>v. Namespace \<lparr>model = ''m'', question = None, from_jsonl = Some ''rows.jsonl'',
        index = 2, max_tokens = 16, temperature = 0, json_mode = False,
        reasoning_effort = ''low'', no_usage_details = False, show_payload = False\<rparr>)
      [''--from-jsonl'', ''rows.jsonl'', ''--index'', ''2'']
      (\<lambda>k. if k = ''OPENROUTER_API_KEY'' then Some ''sk-1'' else None)
      (\<lambda>p. if p = ''rows.jsonl'' then Some [''{}'', ''{}''] else None)
      (\<lambda>s. Some (JDict [])) (\<lambda>u h p t. None) (\<lambda>s out. True) (\<lambda>v. [])
      = Inl (SystemExit_msg msg))"
  using load_question_exits_on_missing_row [of None "''rows.jsonl''" "\<lambda>p. None" "\<lambda>s. None" 0
      "[]" "\<lambda>v. Usage_error" "[]"
      "\<lparr>model = ''m'', question = None, from_jsonl = Some ''rows.jsonl'', index = 2,
       max_tokens = 16, temperature = 0, json_mode = False, reasoning_effort = ''low'',
       no_usage_details = False, show_payload = False\<rparr>" "\<lambda>k. None" "\<lambda>u h p t. None"
      "\<lambda>s out. True" "\<lambda>v. []"]
    load_question_exits_on_missing_row [of None "''rows.jsonl''"
      "\<lambda>p. if p = ''rows.jsonl'' then Some [''{}'', ''{}''] else None" "\<lambda>s. Some (JDict [])"
      "- 1" "[''{}'', ''{}'']" "\<lambda>v. Usage_error" "[]"
      "\<lparr>model = ''m'', question = None, from_jsonl = Some ''rows.jsonl'', index = 2,
       max_tokens = 16, temperature = 0, json_mode = False, reasoning_effort = ''low'',
       no_usage_details = False, show_payload = False\<rparr>" "\<lambda>k. None" "\<lambda>u h p t. None"
      "\<lambda>s out. True" "\<lambda>v. []"]
    load_question_exits_on_missing_row [of None "''rows.jsonl''"
      "\<lambda>p. if p = ''rows.jsonl'' then Some [''{}'', ''{}''] else None" "\<lambda>s. Some (JDict [])"
      2 "[''{}'', ''{}'']"
      "\<lambda>v. Namespace \<lparr>model = ''m'', question = None, from_jsonl = Some ''rows.jsonl'',
        index = 2, max_tokens = 16, temperature = 0, json_mode = False,
        reasoning_effort = ''low'', no_usage_details = False, show_payload = False\<rparr>"
      "[''--from-jsonl'', ''rows.jsonl'', ''--index'', ''2'']"
      "\<lparr>model = ''m'', question = None, from_jsonl = Some ''rows.jsonl'', index = 2,
       max_tokens = 16, temperature = 0, json_mode = False, reasoning_effort = ''low'',
       no_usage_details = False, show_payload = False\<rparr>"
      "\<lambda>k. if k = ''OPENROUTER_API_KEY'' then Some ''sk-1'' else None" "\<lambda>u h p t. None"
      "\<lambda>s out. True" "\<lambda>v. []"]
  by simp

text \<open>
  C9 (as amended). \<^verbatim>\<open>extract_reasoning_and_answer\<close> returns \<^verbatim>\<open>("", "", {})\<close> on every dict
  whose \<^verbatim>\<open>choices\<close> is missing, \<^verbatim>\<open>None\<close> or empty. It returns a triple, whose first two
  components are strings, on every dict whose \<^verbatim>\<open>choices\<close> is a list that starts with a dict
  whose message is missing, \<^verbatim>\<open>None\<close> or a dict, when each \<^verbatim>\<open>reasoning_details\<close> is false, a
  list, a string or a dict. In the joining, an entry that is no dict, or that has no
  non-empty string \<^verbatim>\<open>text\<close>, is skipped: removing it from the list leaves the result as
  it is.
\<close>

theorem extract_returns_on_shaped_input:
  "(is_dict resp \<and> \<not> truthy (fieldv resp ''choices'') \<longrightarrow>
      extract_reasoning_and_answer render resp = Inr ([], [], [])) \<and>
   (has_first_choice resp \<and>
    iterable_or_false (fieldv (message_of resp) ''reasoning_details'') \<and>
    iterable_or_false (fieldv resp ''reasoning_details'') \<longrightarrow>
      (\<exists>t a m. extract_reasoning_and_answer render resp = Inr (t, a, m))) \<and>
   (\<not> has_text d \<longrightarrow>
      join_reasoning_details (JList (ds1 @ d # ds2)) =
      join_reasoning_details (JList (ds1 @ ds2)))"
proof (intro conjI impI)
  assume "is_dict resp \<and> \<not> truthy (fieldv resp ''choices'')"
  then show "extract_reasoning_and_answer render resp = Inr ([], [], [])"
    by (cases resp) (simp_all add: extract_no_choices)
next
  assume h: "has_first_choice resp \<and>
    iterable_or_false (fieldv (message_of resp) ''reasoning_details'') \<and>
    iterable_or_false (fieldv resp ''reasoning_details'')"
  then have "has_first_choice resp"
    by simp
  from extract_with_first_choice [OF this] obtain kvs ckvs mkvs
    where resp: "resp = JDict kvs"
      and fld: "\<And>k. dict_get mkvs k JNull = fieldv (message_of resp) k"
      and ex: "\<And>render. extract_reasoning_and_answer render resp =
        bindE (reasoning_chain resp (JDict mkvs)) (\<lambda>reasoning.
          Inr (py_str render (py_or reasoning (JStr [])),
               py_str render (py_or (dict_get mkvs ''content'' JNull) (JStr [])),
               [(''finish_reason'', dict_get ckvs ''finish_reason'' JNull),
                (''native_finish_reason'', dict_get ckvs ''native_finish_reason'' JNull),
                (''role'', dict_get mkvs ''role'' JNull)]))"
    by blast
  have "\<exists>r. reasoning_chain (JDict kvs) (JDict mkvs) = Inr r"
    using h by (intro chain_iterable) (simp_all add: fld resp [symmetric], simp add: resp)
  then obtain r where "reasoning_chain resp (JDict mkvs) = Inr r"
    unfolding resp by blast
  then show "\<exists>t a m. extract_reasoning_and_answer render resp = Inr (t, a, m)"
    by (simp add: ex bindE_Inr)
next
  assume "\<not> has_text d"
  then show "join_reasoning_details (JList (ds1 @ d # ds2)) =
      join_reasoning_details (JList (ds1 @ ds2))"
    by (rule join_skip)
qed

theorem extract_returns_on_shaped_input_witness:
  "is_dict (JDict [(''choices'', JList [])]) \<and>
   \<not> truthy (fieldv (JDict [(''choices'', JList [])]) ''choices'') \<and>
   extract_reasoning_and_answer (\<lambda>v. []) (JDict [(''choices'', JList [])]) = Inr ([], [], []) \<and>
   has_first_choice
     (JDict [(''choices'', JList [JDict [(''message'',
        JDict [(''reasoning_details'', JStr ''abc'')])]]),
             (''reasoning_details'', JList [JInt 1, JDict [(''text'', JStr ''t'')]])]) \<and>
   (\<exists>t a m. extract_reasoning_and_answer (\<lambda>v. [])
     (JDict [(''choices'', JList [JDict [(''message'',
        JDict [(''reasoning_details'', JStr ''abc'')])]]),
             (''reasoning_details'', JList [JInt 1, JDict [(''text'', JStr ''t'')]])])
     = Inr (t, a, m)) \<and>
   \<not> has_text (JDict [(''text'', JInt 5)]) \<and>
   join_reasoning_details
     (JList ([JDict [(''text'', JStr ''a'')]] @ JDict [(''text'', JInt 5)] #
             [JDict [(''text'', JStr ''b'')]]))
   = join_reasoning_details
     (JList ([JDict [(''text'', JStr ''a'')]] @ [JDict [(''text'', JStr ''b'')]]))"
  using extract_returns_on_shaped_input [of "JDict [(''choices'', JList [])]" "\<lambda>v. []"
      "JDict [(''text'', JInt 5)]" "[JDict [(''text'', JStr ''a'')]]"
      "[JDict [(''text'', JStr ''b'')]]"]
    extract_returns_on_shaped_input [of
      "JDict [(''choices'', JList [JDict [(''message'',
        JDict [(''reasoning_details'', JStr ''abc'')])]]),
             (''reasoning_details'', JList [JInt 1, JDict [(''text'', JStr ''t'')]])]"
      "\<lambda>v. []" "JDict [(''text'', JInt 5)]" "[JDict [(''text'', JStr ''a'')]]"
      "[JDict [(''text'', JStr ''b'')]]"]
  by (simp add: has_first_choice_def first_choice_def message_of_def dict_get_def)

text \<open>
  C9 as stated fails: the parser is not total on dicts. When the first element of
  \<^verbatim>\<open>choices\<close> is a number, line 132 calls \<^verbatim>\<open>get\<close> on it and raises.
\<close>

theorem extract_raises_counterexample:
  "extract_reasoning_and_answer (\<lambda>v. []) (JDict [(''choices'', JList [JInt 1])])
   = Inl AttributeError"
  by (simp add: extract_reasoning_and_answer_def bindE_def py_or_def dict_get_def)

text \<open>
  C10. For every non-empty \<^verbatim>\<open>fallback_question\<close>, \<^verbatim>\<open>load_question\<close> returns
  \<^verbatim>\<open>{"question": fallback_question}\<close> and touches no file; when \<^verbatim>\<open>fallback_question\<close> is
  empty or \<^verbatim>\<open>None\<close> and \<^verbatim>\<open>from_jsonl\<close> is \<^verbatim>\<open>None\<close> or empty, it returns the built-in default
  question, again touching no file.
\<close>

theorem load_question_prefers_explicit_question:
  "(q \<noteq> [] \<longrightarrow>
      load_question files loads fj idx (Some q) = ([], Inr (JDict [(''question'', JStr q)]))) \<and>
   (\<not> truthy_opt fallback \<and> \<not> truthy_opt fj \<longrightarrow>
      load_question files loads fj idx fallback =
        ([], Inr (JDict [(''question'', JStr default_question)])))"
  by (simp add: load_question_def)

theorem load_question_prefers_explicit_question_witness:
  "load_question (\<lambda>p. None) (\<lambda>s. None) (Some ''missing.jsonl'') 7 (Some ''What is 13*17?'')
     = ([], Inr (JDict [(''question'', JStr ''What is 13*17?'')])) \<and>
   \<not> truthy_opt (Some []) \<and> \<not> truthy_opt None \<and>
   load_question (\<lambda>p. None) (\<lambda>s. None) None 7 (Some [])
     = ([], Inr (JDict [(''question'', JStr default_question)]))"
  using load_question_prefers_explicit_question [of "''What is 13*17?''" "\<lambda>p. None" "\<lambda>s. None"
      "Some ''missing.jsonl''" 7 "Some []"]
    load_question_prefers_explicit_question [of "''What is 13*17?''" "\<lambda>p. None" "\<lambda>s. None"
      None 7 "Some []"]
  by simp

end
